theory Spec2Isabelle
  imports Complex_Main "HOL-Library.Multiset"
begin

section \<open>Partially specified positions (cq_cam/address.py)\<close>

text \<open>
  \<^verbatim>\<open>cq.Vector\<close> is the geometry kernel's fully specified 3D point. Coordinates are
  Python numbers; they are modelled as reals.
\<close>

datatype Vector = Vector (vec_x: real) (vec_y: real) (vec_z: real)

text \<open>
  \<^verbatim>\<open>AddressVector\<close>: each of x, y, z is a number or \<^verbatim>\<open>None\<close> (the default of
  the constructor).
\<close>

datatype AddressVector =
  AddressVector (av_x: "real option") (av_y: "real option") (av_z: "real option")

text \<open>
  \<^verbatim>\<open>AddressVector.to_vector(self, origin, relative=False)\<close>: one conditional per
  axis, in the relative branch and in the absolute branch.
\<close>

definition to_vector :: "AddressVector \<Rightarrow> Vector \<Rightarrow> bool \<Rightarrow> Vector" where
  "to_vector self origin relative =
     (if relative then
        Vector
          (case av_x self of None \<Rightarrow> 0 | Some v \<Rightarrow> v - vec_x origin)
          (case av_y self of None \<Rightarrow> 0 | Some v \<Rightarrow> v - vec_y origin)
          (case av_z self of None \<Rightarrow> 0 | Some v \<Rightarrow> v - vec_z origin)
      else
        Vector
          (case av_x self of None \<Rightarrow> vec_x origin | Some v \<Rightarrow> v)
          (case av_y self of None \<Rightarrow> vec_y origin | Some v \<Rightarrow> v)
          (case av_z self of None \<Rightarrow> vec_z origin | Some v \<Rightarrow> v))"

section \<open>Number rendering\<close>

text \<open>Python's \<^verbatim>\<open>str\<close> of an \<^verbatim>\<open>int\<close>: decimal digits, with a minus sign when negative.\<close>

definition digit_char :: "nat \<Rightarrow> char" where
  "digit_char d = ''0123456789'' ! d"

fun str_nat :: "nat \<Rightarrow> string" where
  "str_nat n = (if n < 10 then [digit_char n] else str_nat (n div 10) @ [digit_char (n mod 10)])"

declare str_nat.simps [simp del]

definition str_int :: "int \<Rightarrow> string" where
  "str_int i = (if i < 0 then CHR ''-'' # str_nat (nat (- i)) else str_nat (nat i))"

text \<open>
  Python's built-in \<^verbatim>\<open>round(value, ndigits)\<close>: to the nearest multiple of
  \<open>10\<^sup>-\<^sup>n\<close>, an exact tie going to the even neighbour. The result is kept as the
  integer number of units of \<open>10\<^sup>-\<^sup>n\<close>.
\<close>

definition round_half_even :: "real \<Rightarrow> int" where
  "round_half_even r =
     (let f = \<lfloor>r\<rfloor>; d = r - of_int f in
      if d < 1 / 2 then f
      else if 1 / 2 < d then f + 1
      else if even f then f else f + 1)"

definition py_round :: "real \<Rightarrow> nat \<Rightarrow> int" where
  "py_round v ndigits = round_half_even (v * 10 ^ ndigits)"

text \<open>
  Modelled from the spec: \<^verbatim>\<open>optimize_float\<close> of cq_cam/utils/utils.py, which is not
  among the sources. The spec: the rounded value has its insignificant trailing zeros
  stripped, and the decimal point too when the result is integral, "so 1.000 renders 1,
  1.500 renders 1.5". The argument is the rounded value in units of \<open>10\<^sup>-\<^sup>p\<close>.
\<close>

fun pad_digits :: "nat \<Rightarrow> nat \<Rightarrow> string" where
  "pad_digits 0 m = []"
| "pad_digits (Suc p) m = pad_digits p (m div 10) @ [digit_char (m mod 10)]"

definition strip_zeros :: "string \<Rightarrow> string" where
  "strip_zeros ds = rev (dropWhile (\<lambda>c. c = CHR ''0'') (rev ds))"

definition optimize_float :: "int \<Rightarrow> nat \<Rightarrow> string" where
  "optimize_float n p =
     (let a = nat \<bar>n\<bar>;
          fraction = strip_zeros (pad_digits p (a mod 10 ^ p)) in
      (if n < 0 then ''-'' else [])
        @ str_nat (a div 10 ^ p)
        @ (if fraction = [] then [] else CHR ''.'' # fraction))"

section \<open>Letter addresses and words (cq_cam/address.py)\<close>

datatype GCodeLetter =
  XAxis | YAxis | ZAxis | ArcXAxis | ArcYAxis | ArcZAxis
  | Feed | Speed | DwellTime | ToolNumber | RadiusOffset | LengthOffset

text \<open>\<^verbatim>\<open>GCodeLetter.__str__\<close> returns the member's value.\<close>

fun letter_str :: "GCodeLetter \<Rightarrow> string" where
  "letter_str XAxis = ''X''"
| "letter_str YAxis = ''Y''"
| "letter_str ZAxis = ''Z''"
| "letter_str ArcXAxis = ''I''"
| "letter_str ArcYAxis = ''J''"
| "letter_str ArcZAxis = ''K''"
| "letter_str Feed = ''F''"
| "letter_str Speed = ''S''"
| "letter_str DwellTime = ''P''"
| "letter_str ToolNumber = ''T''"
| "letter_str RadiusOffset = ''D''"
| "letter_str LengthOffset = ''H''"

text \<open>
  \<^verbatim>\<open>GCodeWord.__str__\<close>: the letter followed by the address as the f-string formats
  it, or the empty string when the address is \<^verbatim>\<open>None\<close>. The address of a plain word
  is an int or a float; how Python prints it is the parameter \<open>fmt\<close> (\<^const>\<open>str_int\<close>
  for an int).
\<close>

definition GCodeWord_str :: "('a \<Rightarrow> string) \<Rightarrow> GCodeLetter \<Rightarrow> 'a option \<Rightarrow> string" where
  "GCodeWord_str fmt letter address =
     (case address of
        Some a \<Rightarrow> letter_str letter @ fmt a
      | None \<Rightarrow> [])"

text \<open>\<^verbatim>\<open>GCodeWordPrecision.__str__\<close>: the address is rounded, then optimised.\<close>

definition GCodeWordPrecision_str :: "GCodeLetter \<Rightarrow> real option \<Rightarrow> nat \<Rightarrow> string" where
  "GCodeWordPrecision_str letter address precision =
     (case address of
        Some a \<Rightarrow> letter_str letter @ optimize_float (py_round a precision) precision
      | None \<Rightarrow> [])"

section \<open>Axis groups (cq_cam/address.py)\<close>

text \<open>
  An axis of a group is a precision word (\<^verbatim>\<open>XAxis\<close>, \<^verbatim>\<open>ArcXAxis\<close>, ... each fix the
  letter), or, in \<^verbatim>\<open>IJK\<close>, the string \<^verbatim>\<open>""\<close> the constructor starts from.
\<close>

datatype axis = PrecisionWord GCodeLetter "real option" nat | Text string

fun axis_str :: "axis \<Rightarrow> string" where
  "axis_str (PrecisionWord letter address precision) =
     GCodeWordPrecision_str letter address precision"
| "axis_str (Text s) = s"

datatype GCodeAxisGroup = GCodeAxisGroup (axis_1: axis) (axis_2: axis) (axis_3: axis)

text \<open>Python's \<^verbatim>\<open>sep.join(items)\<close>.\<close>

fun join :: "string \<Rightarrow> string list \<Rightarrow> string" where
  "join sep [] = []"
| "join sep [s] = s"
| "join sep (s # t # ss) = s @ sep @ join sep (t # ss)"

text \<open>\<^verbatim>\<open>GCodeAxisGroup.__str__\<close>: the non-empty axis strings, joined by one space.\<close>

definition GCodeAxisGroup_str :: "GCodeAxisGroup \<Rightarrow> string" where
  "GCodeAxisGroup_str self =
     (let coords = [];
          a1 = axis_str (axis_1 self);
          a2 = axis_str (axis_2 self);
          a3 = axis_str (axis_3 self);
          coords = (if a1 \<noteq> [] then coords @ [a1] else coords);
          coords = (if a2 \<noteq> [] then coords @ [a2] else coords);
          coords = (if a3 \<noteq> [] then coords @ [a3] else coords)
      in join '' '' coords)"

text \<open>\<^verbatim>\<open>XYZ.__init__\<close>: one precision word per axis of \<^verbatim>\<open>end\<close>.\<close>

definition XYZ :: "AddressVector \<Rightarrow> nat \<Rightarrow> GCodeAxisGroup" where
  "XYZ end_v precision =
     GCodeAxisGroup
       (PrecisionWord XAxis (av_x end_v) precision)
       (PrecisionWord YAxis (av_y end_v) precision)
       (PrecisionWord ZAxis (av_z end_v) precision)"

text \<open>
  \<^verbatim>\<open>IJK.__init__\<close>: each axis starts as \<^verbatim>\<open>""\<close> and becomes a word when the
  component \<^verbatim>\<open>!= 0\<close>; \<^verbatim>\<open>None != 0\<close> is true in Python, so an unspecified component
  becomes a word with no address.
\<close>

definition IJK :: "AddressVector \<Rightarrow> nat \<Rightarrow> GCodeAxisGroup" where
  "IJK center precision =
     GCodeAxisGroup
       (if av_x center \<noteq> Some 0 then PrecisionWord ArcXAxis (av_x center) precision else Text [])
       (if av_y center \<noteq> Some 0 then PrecisionWord ArcYAxis (av_y center) precision else Text [])
       (if av_z center \<noteq> Some 0 then PrecisionWord ArcZAxis (av_z center) precision else Text [])"

section \<open>Commands (cq_cam/command.py, not among the sources)\<close>

text \<open>
  Modelled from the spec: \<^verbatim>\<open>CoolantState\<close> of cq_cam/command.py, which is not among
  the sources. The spec (section 3): the enumeration OFF, MIST, FLOOD.
\<close>

datatype CoolantState = OFF | MIST | FLOOD

text \<open>
  Modelled from the spec: the kinds of motion of cq_cam/command.py, which is not among the
  sources. The spec (sections 3 and 4.2): rapid, linear cut, plunge, clockwise arc and
  counter-clockwise arc.
\<close>

datatype CommandKind = Rapid | Cut | PlungeCut | CircularCW | CircularCCW

text \<open>
  Modelled from the spec: the command object of cq_cam/command.py, which is not among the
  sources. The spec (section 3): a command has a start position, an end specification
  (an AddressVector), a motion kind and an optional feed rate.
\<close>

datatype Command =
  Command (kind: CommandKind) (start: AddressVector) (cmd_end: AddressVector)
    (cmd_feed: "real option")

text \<open>
  Modelled from the spec: the class method \<^verbatim>\<open>abs(x, y, z, start=..., feed=...)\<close> of
  the commands of cq_cam/command.py, which is not among the sources. As
  operations/drill.py calls it on \<^verbatim>\<open>Rapid\<close> and \<^verbatim>\<open>PlungeCut\<close>, it builds the
  command of that kind that starts at \<^verbatim>\<open>start\<close>, whose end specification is
  \<^verbatim>\<open>AddressVector(x, y, z)\<close> (an axis not given is unspecified) and whose feed rate
  is \<^verbatim>\<open>feed\<close>.
\<close>

definition cmd_abs ::
  "CommandKind \<Rightarrow> real option \<Rightarrow> real option \<Rightarrow> real option \<Rightarrow> real option
     \<Rightarrow> AddressVector \<Rightarrow> Command" where
  "cmd_abs cls x y z feed_rate start_pos = Command cls start_pos (AddressVector x y z) feed_rate"

text \<open>
  Modelled from the spec: \<^verbatim>\<open>StartSequence\<close> of cq_cam/command.py, which is not among
  the sources. The spec (section 4.3): M3, then S and the speed when there is one, then M8
  for flood or M7 for mist (OFF emits nothing), all on one line, joined by spaces.
\<close>

definition StartSequence_to_gcode :: "int option \<Rightarrow> CoolantState \<Rightarrow> string" where
  "StartSequence_to_gcode speed coolant =
     join '' ''
       ([''M3'']
        @ (case speed of None \<Rightarrow> [] | Some s \<Rightarrow> [GCodeWord_str str_int Speed (Some s)])
        @ (case coolant of OFF \<Rightarrow> [] | MIST \<Rightarrow> [''M7''] | FLOOD \<Rightarrow> [''M8'']))"

text \<open>
  Modelled from the spec: \<^verbatim>\<open>StopSequence\<close> of cq_cam/command.py, which is not among
  the sources. The spec (section 4.3): M5, then M9 when the coolant is not OFF, joined by
  a space on one line.
\<close>

definition StopSequence_to_gcode :: "CoolantState \<Rightarrow> string" where
  "StopSequence_to_gcode coolant =
     join '' '' ([''M5''] @ (if coolant \<noteq> OFF then [''M9''] else []))"

text \<open>
  Modelled from the spec: \<^verbatim>\<open>ToolChange\<close> of cq_cam/command.py, which is not among the
  sources. The spec (section 4.3): as separate lines, StopSequence with the coolant, G30,
  M1, the tool line \<^verbatim>\<open>T<n> G43 H<n> M6\<close>, then StartSequence with the speed, the
  coolant not being re-asserted: only spindle and speed reappear, so the last line is the
  StartSequence of the speed with no coolant. (The expected strings of the repository's
  tests/test_gcode.py carry the coolant word on that line; the model follows the words of
  the spec.)
\<close>

definition ToolChange_lines :: "int \<Rightarrow> int option \<Rightarrow> CoolantState \<Rightarrow> string list" where
  "ToolChange_lines tool_number speed coolant =
     [StopSequence_to_gcode coolant,
      ''G30'',
      ''M1'',
      join '' ''
        [GCodeWord_str str_int ToolNumber (Some tool_number), ''G43'',
         GCodeWord_str str_int LengthOffset (Some tool_number), ''M6''],
      StartSequence_to_gcode speed OFF]"

text \<open>
  Modelled from the spec: \<^verbatim>\<open>ToolChange.to_gcode\<close> of cq_cam/command.py, which is not
  among the sources. The spec (section 4.3): the lines are emitted with line breaks
  between them.
\<close>

definition ToolChange_to_gcode :: "int \<Rightarrow> int option \<Rightarrow> CoolantState \<Rightarrow> string" where
  "ToolChange_to_gcode tool_number speed coolant =
     join [CHR 0x0A] (ToolChange_lines tool_number speed coolant)"

section \<open>The Drill operation (cq_cam/operations/drill.py)\<close>

type_synonym point = "real \<times> real"

datatype error = OperationError string | ValueError

text \<open>
  The objects \<^verbatim>\<open>Drill\<close> is given are the geometry kernel's: a \<^verbatim>\<open>cq.Vector\<close>, a
  \<^verbatim>\<open>cq.Wire\<close>, a \<^verbatim>\<open>cq.Face\<close> (of which the operation reads \<^verbatim>\<open>outerWire()\<close> and
  \<^verbatim>\<open>innerWires()\<close>), or anything else (of which it prints the type). Wires are a
  type parameter; the kernel's \<^verbatim>\<open>cq.Face.makeFromWires(w).Center()\<close> is the parameter
  \<open>center\<close> of the functions below.
\<close>

datatype 'w shape =
  VectorObj Vector
  | WireObj 'w
  | FaceObj (outerWire: 'w) (innerWires: "'w list")
  | OtherObj string

text \<open>The job's configuration, as the operation reads it.\<close>

record Job =
  feed :: real
  op_safe_height :: real
  toWorldCoords :: "Vector \<Rightarrow> Vector"

text \<open>
  The fields of the dataclass. \<^verbatim>\<open>o\<close> is \<open>o_arg\<close> here, and holds the objects that
  \<^verbatim>\<open>self._o_objects(self.o)\<close> iterates over (the method is in
  operations/base_operation.py, not among the sources).
\<close>

record 'w Drill =
  job :: Job
  o_arg :: "'w shape list option"
  depth :: "real option"
  previous_pos :: "AddressVector option"
  commands :: "Command list"

text \<open>Lines 39 to 57: one target, or one per inner wire, for each object.\<close>

fun drill_vectors_loop ::
  "(Vector \<Rightarrow> Vector) \<Rightarrow> ('w \<Rightarrow> Vector) \<Rightarrow> 'w shape list \<Rightarrow> Vector list
     \<Rightarrow> error + Vector list" where
  "drill_vectors_loop transform_f center [] drill_vectors = Inr drill_vectors"
| "drill_vectors_loop transform_f center (VectorObj v # objs) drill_vectors =
     drill_vectors_loop transform_f center objs (drill_vectors @ [transform_f v])"
| "drill_vectors_loop transform_f center (WireObj w # objs) drill_vectors =
     drill_vectors_loop transform_f center objs (drill_vectors @ [transform_f (center w)])"
| "drill_vectors_loop transform_f center (FaceObj outer inner # objs) drill_vectors =
     (if inner \<noteq> []
      then drill_vectors_loop transform_f center objs
             (drill_vectors @ map (\<lambda>wire. transform_f (center wire)) inner)
      else drill_vectors_loop transform_f center objs
             (drill_vectors @ [transform_f (center outer)]))"
| "drill_vectors_loop transform_f center (OtherObj ty # objs) drill_vectors =
     Inl (OperationError
            (''Object type '' @ [CHR 0x22] @ ty @ [CHR 0x22]
               @ '' not supported by Profile operation''))"

text \<open>
  Modelled from the spec: \<^verbatim>\<open>Strategy._pick_nearest\<close> of
  cq_cam/operations/strategy.py, which is not among the sources. The spec (section 4.4):
  from the remaining targets, the one with minimum Euclidean distance to the last visited
  point; ties are implementation-defined but deterministic. Here the first of the
  nearest ones is taken; there is none to take from an empty list.
\<close>

definition euclid_dist :: "point \<Rightarrow> point \<Rightarrow> real" where
  "euclid_dist p q = sqrt ((fst p - fst q)\<^sup>2 + (snd p - snd q)\<^sup>2)"

fun pick_nearest :: "point \<Rightarrow> point list \<Rightarrow> point option" where
  "pick_nearest p [] = None"
| "pick_nearest p (q # qs) =
     Some (fold (\<lambda>c best. if euclid_dist p c < euclid_dist p best then c else best) qs q)"

text \<open>
  Lines 63 to 72, the ordering loop. \<^verbatim>\<open>last\<close> is \<^verbatim>\<open>None\<close> or a pair, and a pair is
  true in Python whatever its components. \<^verbatim>\<open>drill_points.index(p)\<close> raises
  \<^verbatim>\<open>ValueError\<close> when \<open>p\<close> is not in the list; \<^verbatim>\<open>pop\<close> of the index removes the
  first occurrence.
\<close>

function order_loop :: "point option \<Rightarrow> point list \<Rightarrow> point list \<Rightarrow> error + point list" where
  "order_loop last_p drill_points ordered_drill_points =
     (if drill_points = [] then Inr ordered_drill_points
      else
        (case (case last_p of
                 Some l \<Rightarrow> pick_nearest l drill_points
               | None \<Rightarrow> Some (hd drill_points)) of
           None \<Rightarrow> Inl ValueError
         | Some drill_point \<Rightarrow>
             if drill_point \<in> set drill_points
             then order_loop (Some drill_point) (remove1 drill_point drill_points)
                    (ordered_drill_points @ [drill_point])
             else Inl ValueError))"
  by pat_completeness auto
termination
  by (relation "measure (\<lambda>(last_p, drill_points, acc). length drill_points)")
     (auto simp: length_remove1 intro: diff_less length_pos_if_in_set)

declare order_loop.simps [simp del]

text \<open>Lines 75 to 87: four commands per point, each starting where the previous one ends.\<close>

fun cut_loop ::
  "Job \<Rightarrow> real \<Rightarrow> point list \<Rightarrow> AddressVector \<Rightarrow> Command list list
     \<Rightarrow> AddressVector \<times> Command list list" where
  "cut_loop j dp [] pos cut_sequences = (pos, cut_sequences)"
| "cut_loop j dp (pt # pts) pos cut_sequences =
     (let ops = [];
          ops = ops @ [cmd_abs Rapid None None (Some (op_safe_height j)) None pos];
          pos = cmd_end (last ops);
          ops = ops @ [cmd_abs Rapid (Some (fst pt)) (Some (snd pt)) None None pos];
          pos = cmd_end (last ops);
          ops = ops @ [cmd_abs Rapid None None (Some 0) None pos];
          pos = cmd_end (last ops);
          ops = ops @ [cmd_abs PlungeCut None None (Some dp) (Some (feed j)) pos];
          pos = cmd_end (last ops)
      in cut_loop j dp pts pos (cut_sequences @ [ops]))"

text \<open>
  Modelled from the spec: \<^verbatim>\<open>flatten_list\<close> of cq_cam/utils/utils.py, which is not
  among the sources. The spec (section 4.4): the per-target lists become one flat list, in
  visiting order.
\<close>

definition flatten_list :: "'a list list \<Rightarrow> 'a list" where
  "flatten_list xss = concat xss"

text \<open>Lines 33 to 60: the checks and the extraction of the targets.\<close>

definition drill_targets :: "('w \<Rightarrow> Vector) \<Rightarrow> 'w Drill \<Rightarrow> error + Vector list" where
  "drill_targets center self =
     (case o_arg self of
        None \<Rightarrow> Inl (OperationError ''o must be defined'')
      | Some objs \<Rightarrow>
          (case depth self of
             None \<Rightarrow> Inl (OperationError ''depth must be defined'')
           | Some d \<Rightarrow>
               (case drill_vectors_loop (toWorldCoords (job self)) center objs [] of
                  Inl e \<Rightarrow> Inl e
                | Inr drill_vectors \<Rightarrow>
                    if drill_vectors = []
                    then Inl (OperationError ''Given wp does not contain anything to do'')
                    else Inr drill_vectors)))"

text \<open>
  \<^verbatim>\<open>Drill.__post_init__\<close>. An exception leaves the caller without the object, so
  the result is the error or the object with \<^verbatim>\<open>previous_pos\<close> and \<^verbatim>\<open>commands\<close>
  assigned.
\<close>

definition Drill_post_init :: "('w \<Rightarrow> Vector) \<Rightarrow> 'w Drill \<Rightarrow> error + 'w Drill" where
  "Drill_post_init center self =
     (let pos0 = (case previous_pos self of
                    None \<Rightarrow> AddressVector None None None
                  | Some p \<Rightarrow> p) in
      case drill_targets center self of
        Inl e \<Rightarrow> Inl e
      | Inr drill_vectors \<Rightarrow>
          (case order_loop None (map (\<lambda>v. (vec_x v, vec_y v)) drill_vectors) [] of
             Inl e \<Rightarrow> Inl e
           | Inr ordered_drill_points \<Rightarrow>
               (let dp = - \<bar>the (depth self)\<bar>;
                    (pos, cut_sequences) = cut_loop (job self) dp ordered_drill_points pos0 []
                in Inr (self\<lparr>previous_pos := Some pos,
                             commands := flatten_list cut_sequences\<rparr>))))"

section \<open>Notions used in the statements\<close>

text \<open>
  A visiting order is a nearest-neighbour chain when each point but the last is followed by
  one of the nearest among all the points after it.
\<close>

fun nearest_chain :: "point list \<Rightarrow> bool" where
  "nearest_chain [] = True"
| "nearest_chain [p] = True"
| "nearest_chain (p # q # rest) =
     ((\<forall>c \<in> set (q # rest). euclid_dist p q \<le> euclid_dist p c) \<and> nearest_chain (q # rest))"

text \<open>
  A command list is chained from a position when its first command starts there and each
  later command starts where the one before it ends; \<open>final_pos\<close> is where the list
  leaves the position.
\<close>

fun chained :: "AddressVector \<Rightarrow> Command list \<Rightarrow> bool" where
  "chained pos [] = True"
| "chained pos (c # cs) = (start c = pos \<and> chained (cmd_end c) cs)"

definition final_pos :: "AddressVector \<Rightarrow> Command list \<Rightarrow> AddressVector" where
  "final_pos pos cs = (if cs = [] then pos else cmd_end (last cs))"

text \<open>The kind, end and feed of the four commands of one target.\<close>

definition target_commands ::
  "Job \<Rightarrow> real \<Rightarrow> point \<Rightarrow> (CommandKind \<times> AddressVector \<times> real option) list" where
  "target_commands j dp pt =
     [(Rapid, AddressVector None None (Some (op_safe_height j)), None),
      (Rapid, AddressVector (Some (fst pt)) (Some (snd pt)) None, None),
      (Rapid, AddressVector None None (Some 0), None),
      (PlungeCut, AddressVector None None (Some dp), Some (feed j))]"

section \<open>Resolution of an AddressVector\<close>

text \<open>
  Claim C7. Absolute resolution (\<^verbatim>\<open>relative=False\<close>) returns, on each axis, the
  origin's value when the axis is unspecified and the vector's own value when it is
  specified; a fully unspecified AddressVector resolves to exactly the origin.
\<close>

theorem to_vector_absolute:
  "vec_x (to_vector (AddressVector ax ay az) origin False)
      = (case ax of None \<Rightarrow> vec_x origin | Some v \<Rightarrow> v)
   \<and> vec_y (to_vector (AddressVector ax ay az) origin False)
      = (case ay of None \<Rightarrow> vec_y origin | Some v \<Rightarrow> v)
   \<and> vec_z (to_vector (AddressVector ax ay az) origin False)
      = (case az of None \<Rightarrow> vec_z origin | Some v \<Rightarrow> v)
   \<and> to_vector (AddressVector None None None) origin False = origin"
  by (simp add: to_vector_def)

text \<open>
  Claim C9. Relative resolution (\<^verbatim>\<open>relative=True\<close>) returns, on each axis, the
  stored value minus the origin's value when the axis is specified, and 0 when it is
  unspecified.
\<close>

theorem to_vector_relative:
  "vec_x (to_vector (AddressVector ax ay az) origin True)
      = (case ax of None \<Rightarrow> 0 | Some v \<Rightarrow> v - vec_x origin)
   \<and> vec_y (to_vector (AddressVector ax ay az) origin True)
      = (case ay of None \<Rightarrow> 0 | Some v \<Rightarrow> v - vec_y origin)
   \<and> vec_z (to_vector (AddressVector ax ay az) origin True)
      = (case az of None \<Rightarrow> 0 | Some v \<Rightarrow> v - vec_z origin)"
  by (simp add: to_vector_def)

section \<open>Rendering of words and axis groups\<close>

lemma str_nat_nonempty: "str_nat n \<noteq> []"
  by (subst str_nat.simps) simp

lemma optimize_float_nonempty: "optimize_float n p \<noteq> []"
  by (simp add: optimize_float_def Let_def str_nat_nonempty)

text \<open>
  Claim C8. A word whose value is unspecified, plain or of fixed precision, renders as the
  empty string; an axis group joins only the non-empty strings of its axes; so the
  rendering of an XYZ group has one token per specified axis and none for an unspecified
  one, and each token is the letter followed by a non-empty numeral.
\<close>

theorem unspecified_word_omitted:
  "GCodeWord_str fmt letter None = []
   \<and> GCodeWordPrecision_str letter None precision = []
   \<and> GCodeAxisGroup_str g =
       join '' ''
         (filter (\<lambda>s. s \<noteq> []) [axis_str (axis_1 g), axis_str (axis_2 g), axis_str (axis_3 g)])
   \<and> GCodeAxisGroup_str (XYZ (AddressVector ax ay az) precision) =
       join '' ''
         ((case ax of None \<Rightarrow> []
           | Some v \<Rightarrow> [''X'' @ optimize_float (py_round v precision) precision])
          @ (case ay of None \<Rightarrow> []
             | Some v \<Rightarrow> [''Y'' @ optimize_float (py_round v precision) precision])
          @ (case az of None \<Rightarrow> []
             | Some v \<Rightarrow> [''Z'' @ optimize_float (py_round v precision) precision]))
   \<and> optimize_float n precision \<noteq> []"
proof -
  have group: "GCodeAxisGroup_str g =
       join '' ''
         (filter (\<lambda>s. s \<noteq> []) [axis_str (axis_1 g), axis_str (axis_2 g), axis_str (axis_3 g)])"
    by (simp add: GCodeAxisGroup_str_def Let_def)
  have xyz: "GCodeAxisGroup_str (XYZ (AddressVector ax ay az) precision) =
       join '' ''
         ((case ax of None \<Rightarrow> []
           | Some v \<Rightarrow> [''X'' @ optimize_float (py_round v precision) precision])
          @ (case ay of None \<Rightarrow> []
             | Some v \<Rightarrow> [''Y'' @ optimize_float (py_round v precision) precision])
          @ (case az of None \<Rightarrow> []
             | Some v \<Rightarrow> [''Z'' @ optimize_float (py_round v precision) precision]))"
    by (simp add: GCodeAxisGroup_str_def Let_def XYZ_def GCodeWordPrecision_str_def
          split: option.splits)
  show ?thesis
    using group xyz
    by (simp add: GCodeWord_str_def GCodeWordPrecision_str_def optimize_float_nonempty)
qed

text \<open>
  Claim C5, as stated, fails: the IJK group tests the component itself against zero, not
  its rounded value, so a component of 0.0004 at precision 3 is kept and renders as the
  token I0.
\<close>

theorem IJK_zero_token_counterexample:
  "GCodeAxisGroup_str (IJK (AddressVector (Some (4 / 10000)) (Some 0) (Some 0)) 3) = ''I0''"
  by code_simp

text \<open>
  Claim C5, amended. The IJK group omits every component whose value is exactly zero (and
  every unspecified one), and renders the others, each as its letter and its rounded
  value, joined by one space in the order I, J, K.
\<close>

theorem IJK_rendering:
  "GCodeAxisGroup_str (IJK (AddressVector cx cy cz) precision) =
     join '' ''
       ((case cx of None \<Rightarrow> [] | Some v \<Rightarrow>
           if v = 0 then [] else [''I'' @ optimize_float (py_round v precision) precision])
        @ (case cy of None \<Rightarrow> [] | Some v \<Rightarrow>
           if v = 0 then [] else [''J'' @ optimize_float (py_round v precision) precision])
        @ (case cz of None \<Rightarrow> [] | Some v \<Rightarrow>
           if v = 0 then [] else [''K'' @ optimize_float (py_round v precision) precision]))"
  by (simp add: GCodeAxisGroup_str_def IJK_def Let_def GCodeWordPrecision_str_def
        split: option.splits)

section \<open>Fixed sequences\<close>

text \<open>
  Claim C4, as stated, fails: the rendering of ToolChange(2, speed=1000, coolant=FLOOD)
  has five lines, not four.
\<close>

theorem ToolChange_line_count_counterexample:
  "length (ToolChange_lines 2 (Some 1000) FLOOD) \<noteq> 4"
  by code_simp

text \<open>
  Claim C4, amended. Every ToolChange renders exactly five lines: the stop line (M5, with
  M9 when the coolant is not OFF), G30, M1, the tool line \<^verbatim>\<open>T<n> G43 H<n> M6\<close>, and a
  restart line with the spindle and the speed and no coolant word, whatever the coolant
  is. ToolChange(2, speed=1000, coolant=FLOOD) renders "M5 M9", "G30", "M1",
  "T2 G43 H2 M6", "M3 S1000", each on a line of its own.
\<close>

theorem ToolChange_five_lines:
  "ToolChange_lines tool_number speed coolant =
     [(if coolant = OFF then ''M5'' else ''M5 M9''),
      ''G30'',
      ''M1'',
      ''T'' @ str_int tool_number @ '' G43 H'' @ str_int tool_number @ '' M6'',
      (case speed of None \<Rightarrow> ''M3'' | Some s \<Rightarrow> ''M3 S'' @ str_int s)]
   \<and> length (ToolChange_lines tool_number speed coolant) = 5
   \<and> ToolChange_lines 2 (Some 1000) FLOOD
       = [''M5 M9'', ''G30'', ''M1'', ''T2 G43 H2 M6'', ''M3 S1000'']
   \<and> ToolChange_to_gcode 2 (Some 1000) FLOOD =
       ''M5 M9'' @ [CHR 0x0A] @ ''G30'' @ [CHR 0x0A] @ ''M1'' @ [CHR 0x0A]
         @ ''T2 G43 H2 M6'' @ [CHR 0x0A] @ ''M3 S1000''"
proof -
  have general: "ToolChange_lines n sp c =
     [(if c = OFF then ''M5'' else ''M5 M9''), ''G30'', ''M1'',
      ''T'' @ str_int n @ '' G43 H'' @ str_int n @ '' M6'',
      (case sp of None \<Rightarrow> ''M3'' | Some s \<Rightarrow> ''M3 S'' @ str_int s)]" for n sp c
    by (simp add: ToolChange_lines_def StopSequence_to_gcode_def StartSequence_to_gcode_def
          GCodeWord_str_def split: option.splits)
  have instance_lines: "ToolChange_lines 2 (Some 1000) FLOOD
       = [''M5 M9'', ''G30'', ''M1'', ''T2 G43 H2 M6'', ''M3 S1000'']"
    by code_simp
  have rendered: "ToolChange_to_gcode 2 (Some 1000) FLOOD =
       ''M5 M9'' @ [CHR 0x0A] @ ''G30'' @ [CHR 0x0A] @ ''M1'' @ [CHR 0x0A]
         @ ''T2 G43 H2 M6'' @ [CHR 0x0A] @ ''M3 S1000''"
    unfolding ToolChange_to_gcode_def instance_lines by simp
  from general [of tool_number speed coolant] instance_lines rendered show ?thesis
    by simp
qed

section \<open>Ordering of the drill targets\<close>

lemma fold_nearest:
  fixes d :: "point \<Rightarrow> real"
  defines "f \<equiv> (\<lambda>c best. if d c < d best then c else best)"
  shows "fold f qs b \<in> insert b (set qs)
         \<and> d (fold f qs b) \<le> d b \<and> (\<forall>c \<in> set qs. d (fold f qs b) \<le> d c)"
proof (induction qs arbitrary: b)
  case Nil
  then show ?case by simp
next
  case (Cons q qs)
  from Cons.IH [of "f q b"] have ih:
    "fold f qs (f q b) \<in> insert (f q b) (set qs)"
    "d (fold f qs (f q b)) \<le> d (f q b)"
    "\<forall>c \<in> set qs. d (fold f qs (f q b)) \<le> d c"
    by auto
  have fq: "f q b \<in> {q, b}" "d (f q b) \<le> d b" "d (f q b) \<le> d q"
    by (auto simp: f_def)
  from ih fq show ?case by auto
qed

lemma pick_nearest_Some:
  assumes "pts \<noteq> []"
  shows "\<exists>r. pick_nearest l pts = Some r \<and> r \<in> set pts
             \<and> (\<forall>c \<in> set pts. euclid_dist l r \<le> euclid_dist l c)"
proof -
  from assms obtain q qs where pts: "pts = q # qs" by (cases pts) auto
  show ?thesis
    unfolding pts using fold_nearest [of "euclid_dist l" qs q]
    by auto
qed

lemma order_loop_from:
  "\<exists>res. order_loop (Some l) pts acc = Inr (acc @ res) \<and> mset res = mset pts
         \<and> nearest_chain (l # res)"
proof (induction "length pts" arbitrary: pts l acc)
  case 0
  then have "pts = []" by simp
  then show ?case by (simp add: order_loop.simps)
next
  case (Suc n)
  then have ne: "pts \<noteq> []" by auto
  from pick_nearest_Some [OF ne, of l] obtain r where
    r: "pick_nearest l pts = Some r" "r \<in> set pts"
       "\<forall>c \<in> set pts. euclid_dist l r \<le> euclid_dist l c"
    by blast
  have step: "order_loop (Some l) pts acc = order_loop (Some r) (remove1 r pts) (acc @ [r])"
    using ne r by (subst order_loop.simps) simp
  have len: "n = length (remove1 r pts)"
    using Suc.hyps(2) r(2) by (simp add: length_remove1)
  from Suc.hyps(1) [OF len, of r "acc @ [r]"] obtain res where
    res: "order_loop (Some r) (remove1 r pts) (acc @ [r]) = Inr ((acc @ [r]) @ res)"
         "mset res = mset (remove1 r pts)" "nearest_chain (r # res)"
    by blast
  have m: "mset (r # res) = mset pts"
    using res(2) r(2) by simp
  then have s: "set (r # res) = set pts"
    by (metis set_mset_mset)
  have "nearest_chain (l # r # res)"
    using res(3) r(3) s by simp
  with step res(1) m show ?case
    by (intro exI [of _ "r # res"]) simp
qed

lemma nearest_chain_nth:
  "nearest_chain xs \<Longrightarrow> i < j \<Longrightarrow> j < length xs
     \<Longrightarrow> euclid_dist (xs ! i) (xs ! Suc i) \<le> euclid_dist (xs ! i) (xs ! j)"
proof (induction xs arbitrary: i j rule: nearest_chain.induct)
  case 1
  then show ?case by simp
next
  case (2 p)
  then show ?case by simp
next
  case (3 p q rest)
  show ?case
  proof (cases i)
    case 0
    with 3 obtain k where "j = Suc k" "k < length (q # rest)" by (cases j) auto
    with 3(2) 0 show ?thesis by (simp del: nth_Cons_Suc) (use \<open>j = Suc k\<close> \<open>k < length (q # rest)\<close> in \<open>auto simp: nth_Cons'\<close>)
  next
    case (Suc i')
    with 3 obtain k where k: "j = Suc k" "i' < k" "k < length (q # rest)" by (cases j) auto
    from 3(1) [OF _ k(2) k(3)] 3(2) show ?thesis
      using Suc k by simp
  qed
qed

lemma order_loop_None:
  assumes "pts \<noteq> []"
  shows "\<exists>ord. order_loop None pts [] = Inr ord \<and> hd ord = hd pts \<and> mset ord = mset pts
      \<and> nearest_chain ord"
proof -
  from assms obtain q qs where pts: "pts = q # qs" by (cases pts) auto
  have step: "order_loop None pts [] = order_loop (Some q) qs [q]"
    unfolding pts by (subst order_loop.simps) simp
  from order_loop_from [of q qs "[q]"] obtain res where
    "order_loop (Some q) qs [q] = Inr ([q] @ res)" "mset res = mset qs" "nearest_chain (q # res)"
    by blast
  with step pts show ?thesis by simp
qed

text \<open>
  Claim C1. For a non-empty list of target points the ordering loop returns an order that
  starts with the first input point, is a rearrangement of the input with each target
  exactly once (equal as multisets), and in which every visited point is followed by a
  point at minimum Euclidean distance among all the points not yet visited; and the
  points (0,0), (5,0), (10,0) are visited in that order.
\<close>

theorem drill_order_nearest_neighbour:
  "(pts \<noteq> [] \<longrightarrow>
      (\<exists>ord. order_loop None pts [] = Inr ord
         \<and> hd ord = hd pts
         \<and> mset ord = mset pts
         \<and> (\<forall>i j. i < j \<and> j < length ord \<longrightarrow>
               euclid_dist (ord ! i) (ord ! Suc i) \<le> euclid_dist (ord ! i) (ord ! j))))
   \<and> order_loop None [(0, 0), (5, 0), (10, 0)] [] = Inr [(0, 0), (5, 0), (10, 0)]"
proof -
  have "order_loop None [(0, 0), (5, 0), (10, 0)] [] = Inr [(0, 0), (5, 0), (10, 0)]"
    by (simp add: order_loop.simps euclid_dist_def)
  moreover have "\<exists>ord. order_loop None pts [] = Inr ord
         \<and> hd ord = hd pts
         \<and> mset ord = mset pts
         \<and> (\<forall>i j. i < j \<and> j < length ord \<longrightarrow>
               euclid_dist (ord ! i) (ord ! Suc i) \<le> euclid_dist (ord ! i) (ord ! j))"
    if "pts \<noteq> []"
  proof -
    from order_loop_None [OF that] obtain ord where
      ord: "order_loop None pts [] = Inr ord" "hd ord = hd pts" "mset ord = mset pts"
           "nearest_chain ord"
      by blast
    then show ?thesis
      using nearest_chain_nth [OF ord(4)] by blast
  qed
  ultimately show ?thesis by blast
qed

theorem drill_order_nearest_neighbour_witness:
  "[(3, 4), (0, 0), (3, 5), (1, 0)] \<noteq> ([] :: point list)
   \<and> order_loop None [(3, 4), (0, 0), (3, 5), (1, 0)] [] = Inr [(3, 4), (3, 5), (1, 0), (0, 0)]
   \<and> (\<exists>ord. order_loop None [(3, 4), (0, 0), (3, 5), (1, 0)] [] = Inr ord
         \<and> hd ord = (3, 4) \<and> mset ord = mset [(3, 4), (0, 0), (3, 5), (1, 0)])"
proof -
  have ne: "[(3, 4), (0, 0), (3, 5), (1, 0)] \<noteq> ([] :: point list)" by simp
  have run: "order_loop None [(3, 4), (0, 0), (3, 5), (1, 0)] [] = Inr [(3, 4), (3, 5), (1, 0), (0, 0)]"
    by (simp add: order_loop.simps euclid_dist_def)
  from drill_order_nearest_neighbour [of "[(3, 4), (0, 0), (3, 5), (1, 0)]"] ne
  have "\<exists>ord. order_loop None [(3, 4), (0, 0), (3, 5), (1, 0)] [] = Inr ord
         \<and> hd ord = (3, 4) \<and> mset ord = mset [(3, 4), (0, 0), (3, 5), (1, 0)]"
    by simp blast
  with ne run show ?thesis by blast
qed

section \<open>The commands of a Drill\<close>

lemma chained_append:
  "chained pos (xs @ ys) = (chained pos xs \<and> chained (final_pos pos xs) ys)"
  by (induction xs arbitrary: pos) (auto simp: final_pos_def)

lemma final_pos_append: "final_pos pos (xs @ ys) = final_pos (final_pos pos xs) ys"
  by (simp add: final_pos_def)

lemma chained_nth:
  "chained pos cs \<Longrightarrow> Suc i < length cs \<Longrightarrow> start (cs ! Suc i) = cmd_end (cs ! i)"
proof (induction cs arbitrary: pos i)
  case Nil
  then show ?case by simp
next
  case (Cons c cs)
  show ?case
  proof (cases i)
    case 0
    with Cons.prems show ?thesis by (cases cs) auto
  next
    case (Suc k)
    with Cons.prems Cons.IH [of "cmd_end c" k] show ?thesis by simp
  qed
qed

lemma cut_loop_step:
  "cut_loop j dp (pt # pts) pos seqs =
     cut_loop j dp pts (AddressVector None None (Some dp))
       (seqs @ [[Command Rapid pos (AddressVector None None (Some (op_safe_height j))) None,
                 Command Rapid (AddressVector None None (Some (op_safe_height j)))
                   (AddressVector (Some (fst pt)) (Some (snd pt)) None) None,
                 Command Rapid (AddressVector (Some (fst pt)) (Some (snd pt)) None)
                   (AddressVector None None (Some 0)) None,
                 Command PlungeCut (AddressVector None None (Some 0))
                   (AddressVector None None (Some dp)) (Some (feed j))]])"
  by (simp add: cmd_abs_def Let_def)

lemma cut_loop_result:
  "\<exists>new. cut_loop j dp pts pos seqs = (final_pos pos (concat new), seqs @ new)
      \<and> map (map (\<lambda>c. (kind c, cmd_end c, cmd_feed c))) new = map (target_commands j dp) pts
      \<and> chained pos (concat new)
      \<and> (pts \<noteq> [] \<longrightarrow> concat new \<noteq> [] \<and> start (hd (concat new)) = pos)"
proof (induction pts arbitrary: pos seqs)
  case Nil
  show ?case by (intro exI [of _ "[]"]) (simp add: final_pos_def)
next
  case (Cons pt pts)
  let ?ops = "[Command Rapid pos (AddressVector None None (Some (op_safe_height j))) None,
                 Command Rapid (AddressVector None None (Some (op_safe_height j)))
                   (AddressVector (Some (fst pt)) (Some (snd pt)) None) None,
                 Command Rapid (AddressVector (Some (fst pt)) (Some (snd pt)) None)
                   (AddressVector None None (Some 0)) None,
                 Command PlungeCut (AddressVector None None (Some 0))
                   (AddressVector None None (Some dp)) (Some (feed j))]"
  let ?pos = "AddressVector None None (Some dp)"
  from Cons.IH [of ?pos "seqs @ [?ops]"] obtain new where new:
    "cut_loop j dp pts ?pos (seqs @ [?ops]) = (final_pos ?pos (concat new), (seqs @ [?ops]) @ new)"
    "map (map (\<lambda>c. (kind c, cmd_end c, cmd_feed c))) new = map (target_commands j dp) pts"
    "chained ?pos (concat new)"
    by blast
  have fp: "final_pos pos ?ops = ?pos" by (simp add: final_pos_def)
  have "cut_loop j dp (pt # pts) pos seqs
          = (final_pos pos (concat (?ops # new)), seqs @ (?ops # new))"
    unfolding cut_loop_step new(1)
    using final_pos_append [of pos ?ops "concat new"] fp by simp
  moreover have "map (map (\<lambda>c. (kind c, cmd_end c, cmd_feed c))) (?ops # new)
                   = map (target_commands j dp) (pt # pts)"
    using new(2) by (simp add: target_commands_def)
  moreover have "chained pos (concat (?ops # new))"
    using new(3) by simp
  moreover have "concat (?ops # new) \<noteq> [] \<and> start (hd (concat (?ops # new))) = pos"
    by simp
  ultimately show ?case by blast
qed

lemma order_loop_total: "\<exists>ord. order_loop None pts [] = Inr ord \<and> length ord = length pts"
proof (cases "pts = []")
  case True
  then show ?thesis by (simp add: order_loop.simps)
next
  case False
  from order_loop_None [OF False] show ?thesis
    by (metis size_mset)
qed

lemma Drill_post_init_Inr:
  assumes "Drill_post_init center self = Inr self'"
  shows "\<exists>d vs ordered new.
           depth self = Some d \<and> drill_targets center self = Inr vs \<and> vs \<noteq> []
           \<and> order_loop None (map (\<lambda>v. (vec_x v, vec_y v)) vs) [] = Inr ordered
           \<and> length ordered = length vs
           \<and> cut_loop (job self) (- \<bar>d\<bar>) ordered
                (case previous_pos self of None \<Rightarrow> AddressVector None None None | Some p \<Rightarrow> p) []
              = (final_pos (case previous_pos self of None \<Rightarrow> AddressVector None None None | Some p \<Rightarrow> p) (concat new), new)
           \<and> self' = self\<lparr>previous_pos := Some (final_pos (case previous_pos self of None \<Rightarrow> AddressVector None None None | Some p \<Rightarrow> p) (concat new)),
                           commands := concat new\<rparr>"
proof -
  let ?pos0 = "case previous_pos self of None \<Rightarrow> AddressVector None None None | Some p \<Rightarrow> p"
  from assms obtain vs where vs: "drill_targets center self = Inr vs"
    by (auto simp: Drill_post_init_def Let_def split: sum.splits)
  then obtain d where d: "depth self = Some d" and ne: "vs \<noteq> []"
    by (auto simp: drill_targets_def split: option.splits sum.splits if_splits)
  from order_loop_total [of "map (\<lambda>v. (vec_x v, vec_y v)) vs"] obtain ordered where
    ord: "order_loop None (map (\<lambda>v. (vec_x v, vec_y v)) vs) [] = Inr ordered"
         "length ordered = length vs"
    by auto
  from cut_loop_result [of "job self" "- \<bar>d\<bar>" ordered ?pos0 "[]"] obtain new where
    new: "cut_loop (job self) (- \<bar>d\<bar>) ordered ?pos0 [] = (final_pos ?pos0 (concat new), new)"
    by auto
  from assms have "self' = self\<lparr>previous_pos := Some (final_pos ?pos0 (concat new)),
                           commands := concat new\<rparr>"
    by (simp add: Drill_post_init_def Let_def vs d ord new flatten_list_def)
  with vs d ne ord new show ?thesis by blast
qed

section \<open>Configuration errors of a Drill\<close>

lemma drill_vectors_loop_unsupported:
  "OtherObj ty \<in> set objs \<Longrightarrow>
     \<exists>ty'. OtherObj ty' \<in> set objs
        \<and> drill_vectors_loop tf center objs acc =
            Inl (OperationError (''Object type '' @ [CHR 0x22] @ ty' @ [CHR 0x22]
                                  @ '' not supported by Profile operation''))"
  by (induction tf center objs acc rule: drill_vectors_loop.induct) auto

text \<open>
  Claim C3. Construction fails with an operation error when \<open>o\<close> is missing, when the
  depth is missing, when one of the objects is not a vector, wire or face, and when the
  extraction yields no target; the four messages are pairwise distinct; and every error of
  the construction is an error of the checks and the extraction (lines 33 to 60), which
  come before the ordering and before the first command is built.
\<close>

theorem Drill_configuration_errors:
  "(o_arg self = None \<longrightarrow>
      Drill_post_init center self = Inl (OperationError ''o must be defined''))
   \<and> (o_arg self \<noteq> None \<and> depth self = None \<longrightarrow>
      Drill_post_init center self = Inl (OperationError ''depth must be defined''))
   \<and> (o_arg self = Some objs \<and> depth self \<noteq> None \<and> OtherObj ty \<in> set objs \<longrightarrow>
        (\<exists>ty'. OtherObj ty' \<in> set objs
           \<and> Drill_post_init center self =
               Inl (OperationError (''Object type '' @ [CHR 0x22] @ ty' @ [CHR 0x22]
                                     @ '' not supported by Profile operation''))))
   \<and> (o_arg self = Some objs \<and> depth self \<noteq> None
        \<and> drill_vectors_loop (toWorldCoords (job self)) center objs [] = Inr [] \<longrightarrow>
      Drill_post_init center self =
        Inl (OperationError ''Given wp does not contain anything to do''))
   \<and> distinct [''o must be defined'', ''depth must be defined'',
        ''Object type '' @ [CHR 0x22] @ ty @ [CHR 0x22] @ '' not supported by Profile operation'',
        ''Given wp does not contain anything to do'']
   \<and> (\<forall>e. Drill_post_init center self = Inl e \<longrightarrow> drill_targets center self = Inl e)"
proof -
  have no_o: "Drill_post_init center self = Inl (OperationError ''o must be defined'')"
    if "o_arg self = None"
    using that by (simp add: Drill_post_init_def drill_targets_def)
  have no_depth: "Drill_post_init center self = Inl (OperationError ''depth must be defined'')"
    if "o_arg self \<noteq> None \<and> depth self = None"
    using that by (auto simp: Drill_post_init_def drill_targets_def)
  have unsupported: "\<exists>ty'. OtherObj ty' \<in> set objs
           \<and> Drill_post_init center self =
               Inl (OperationError (''Object type '' @ [CHR 0x22] @ ty' @ [CHR 0x22]
                                     @ '' not supported by Profile operation''))"
    if "o_arg self = Some objs \<and> depth self \<noteq> None \<and> OtherObj ty \<in> set objs"
  proof -
    from that drill_vectors_loop_unsupported [of ty objs "toWorldCoords (job self)" center "[]"]
    obtain ty' where "OtherObj ty' \<in> set objs"
      "drill_vectors_loop (toWorldCoords (job self)) center objs [] =
            Inl (OperationError (''Object type '' @ [CHR 0x22] @ ty' @ [CHR 0x22]
                                  @ '' not supported by Profile operation''))"
      by blast
    with that show ?thesis
      by (intro exI [of _ ty']) (auto simp: Drill_post_init_def drill_targets_def)
  qed
  have no_targets: "Drill_post_init center self =
        Inl (OperationError ''Given wp does not contain anything to do'')"
    if "o_arg self = Some objs \<and> depth self \<noteq> None
        \<and> drill_vectors_loop (toWorldCoords (job self)) center objs [] = Inr []"
    using that by (auto simp: Drill_post_init_def drill_targets_def)
  have msgs: "distinct [''o must be defined'', ''depth must be defined'',
        ''Object type '' @ [CHR 0x22] @ ty @ [CHR 0x22] @ '' not supported by Profile operation'',
        ''Given wp does not contain anything to do'']"
    by simp
  have early: "drill_targets center self = Inl e" if "Drill_post_init center self = Inl e" for e
  proof (cases "drill_targets center self")
    case (Inl e')
    with that show ?thesis by (simp add: Drill_post_init_def)
  next
    case (Inr vs)
    from order_loop_total [of "map (\<lambda>v. (vec_x v, vec_y v)) vs"] obtain ordered where
      "order_loop None (map (\<lambda>v. (vec_x v, vec_y v)) vs) [] = Inr ordered" by blast
    with Inr that show ?thesis
      by (simp add: Drill_post_init_def Let_def split: prod.splits)
  qed
  from no_o no_depth unsupported no_targets msgs early show ?thesis by blast
qed

theorem Drill_configuration_errors_witness:
  "Drill_post_init (\<lambda>w::unit. Vector 0 0 0)
      \<lparr>job = \<lparr>feed = 100, op_safe_height = 10, toWorldCoords = (\<lambda>v. v)\<rparr>,
        o_arg = None, depth = Some 3, previous_pos = None, commands = []\<rparr>
     = Inl (OperationError ''o must be defined'')
   \<and> Drill_post_init (\<lambda>w::unit. Vector 0 0 0)
      \<lparr>job = \<lparr>feed = 100, op_safe_height = 10, toWorldCoords = (\<lambda>v. v)\<rparr>,
        o_arg = Some [VectorObj (Vector 1 2 0)], depth = None, previous_pos = None, commands = []\<rparr>
     = Inl (OperationError ''depth must be defined'')
   \<and> Drill_post_init (\<lambda>w::unit. Vector 0 0 0)
      \<lparr>job = \<lparr>feed = 100, op_safe_height = 10, toWorldCoords = (\<lambda>v. v)\<rparr>,
        o_arg = Some [VectorObj (Vector 1 2 0), OtherObj ''str''], depth = Some 3,
        previous_pos = None, commands = []\<rparr>
     = Inl (OperationError (''Object type '' @ [CHR 0x22] @ ''str'' @ [CHR 0x22]
                             @ '' not supported by Profile operation''))
   \<and> Drill_post_init (\<lambda>w::unit. Vector 0 0 0)
      \<lparr>job = \<lparr>feed = 100, op_safe_height = 10, toWorldCoords = (\<lambda>v. v)\<rparr>,
        o_arg = Some [], depth = Some 3, previous_pos = None, commands = []\<rparr>
     = Inl (OperationError ''Given wp does not contain anything to do'')"
  using
    Drill_configuration_errors [of
      "\<lparr>job = \<lparr>feed = 100, op_safe_height = 10, toWorldCoords = (\<lambda>v. v)\<rparr>,
        o_arg = None, depth = Some 3, previous_pos = None, commands = []\<rparr>"
      "\<lambda>w::unit. Vector 0 0 0" "[]" "''str''"]
    Drill_configuration_errors [of
      "\<lparr>job = \<lparr>feed = 100, op_safe_height = 10, toWorldCoords = (\<lambda>v. v)\<rparr>,
        o_arg = Some [VectorObj (Vector 1 2 0)], depth = None, previous_pos = None, commands = []\<rparr>"
      "\<lambda>w::unit. Vector 0 0 0" "[]" "''str''"]
    Drill_configuration_errors [of
      "\<lparr>job = \<lparr>feed = 100, op_safe_height = 10, toWorldCoords = (\<lambda>v. v)\<rparr>,
        o_arg = Some [VectorObj (Vector 1 2 0), OtherObj ''str''], depth = Some 3,
        previous_pos = None, commands = []\<rparr>"
      "\<lambda>w::unit. Vector 0 0 0" "[VectorObj (Vector 1 2 0), OtherObj ''str'']" "''str''"]
    Drill_configuration_errors [of
      "\<lparr>job = \<lparr>feed = 100, op_safe_height = 10, toWorldCoords = (\<lambda>v. v)\<rparr>,
        o_arg = Some [], depth = Some 3, previous_pos = None, commands = []\<rparr>"
      "\<lambda>w::unit. Vector 0 0 0" "[]" "''str''"]
  by simp

section \<open>The command sequence of a Drill\<close>

lemma length_concat_four:
  "map (map f) new = map g pts \<Longrightarrow> (\<And>pt. length (g pt) = 4) \<Longrightarrow>
     length (concat new) = 4 * length pts"
proof (induction new arbitrary: pts)
  case Nil
  then show ?case by simp
next
  case (Cons ops new)
  then obtain pt pts' where pts: "pts = pt # pts'" by (cases pts) auto
  with Cons.prems have a: "map f ops = g pt" and b: "map (map f) new = map g pts'" by auto
  from a Cons.prems(2) [of pt] have "length ops = 4" by (metis length_map)
  moreover from Cons.IH [OF b Cons.prems(2)] have "length (concat new) = 4 * length pts'" .
  ultimately show ?case using pts by simp
qed

text \<open>
  A Drill of the two points (1,2) and (5,2), depth 3, feed 100 and safe height 10, with the
  identity for \<^verbatim>\<open>toWorldCoords\<close>, from any previous position.
\<close>

lemma drill_targets_two_points:
  "drill_targets (\<lambda>w::unit. Vector 0 0 0)
      \<lparr>job = \<lparr>feed = 100, op_safe_height = 10, toWorldCoords = (\<lambda>v. v)\<rparr>,
        o_arg = Some [VectorObj (Vector 1 2 0), VectorObj (Vector 5 2 0)], depth = Some 3,
        previous_pos = pp, commands = []\<rparr>
     = Inr [Vector 1 2 0, Vector 5 2 0]"
  by (simp add: drill_targets_def)

lemma order_loop_two_points: "order_loop None [(1, 2), (5, 2)] [] = Inr [(1, 2), (5, 2)]"
  by (simp add: order_loop.simps)

lemma Drill_post_init_two_points:
  "Drill_post_init (\<lambda>w::unit. Vector 0 0 0)
      \<lparr>job = \<lparr>feed = 100, op_safe_height = 10, toWorldCoords = (\<lambda>v. v)\<rparr>,
        o_arg = Some [VectorObj (Vector 1 2 0), VectorObj (Vector 5 2 0)], depth = Some 3,
        previous_pos = pp, commands = []\<rparr>
   = Inr \<lparr>job = \<lparr>feed = 100, op_safe_height = 10, toWorldCoords = (\<lambda>v. v)\<rparr>,
        o_arg = Some [VectorObj (Vector 1 2 0), VectorObj (Vector 5 2 0)], depth = Some 3,
        previous_pos = Some (AddressVector None None (Some (- 3))),
        commands =
          [Command Rapid (case pp of None \<Rightarrow> AddressVector None None None | Some p \<Rightarrow> p)
             (AddressVector None None (Some 10)) None,
           Command Rapid (AddressVector None None (Some 10))
             (AddressVector (Some 1) (Some 2) None) None,
           Command Rapid (AddressVector (Some 1) (Some 2) None)
             (AddressVector None None (Some 0)) None,
           Command PlungeCut (AddressVector None None (Some 0))
             (AddressVector None None (Some (- 3))) (Some 100),
           Command Rapid (AddressVector None None (Some (- 3)))
             (AddressVector None None (Some 10)) None,
           Command Rapid (AddressVector None None (Some 10))
             (AddressVector (Some 5) (Some 2) None) None,
           Command Rapid (AddressVector (Some 5) (Some 2) None)
             (AddressVector None None (Some 0)) None,
           Command PlungeCut (AddressVector None None (Some 0))
             (AddressVector None None (Some (- 3))) (Some 100)]\<rparr>"
  unfolding Drill_post_init_def drill_targets_two_points
  by (simp add: order_loop_two_points flatten_list_def Let_def cmd_abs_def)

text \<open>
  Claim C2. After every successful construction, with depth \<open>d\<close> and the targets in
  their visiting order, the commands are the concatenation, target by target, of a rapid
  with only Z at the job's safe height, a rapid with X and Y at the target and Z
  unspecified, a rapid with only Z at 0, and a plunge cut with only Z at \<open>-|d|\<close> and
  the job's feed rate; there are four times as many commands as targets; and the
  construction with depth \<open>-d\<close> succeeds with the same commands.
\<close>

theorem Drill_command_sequence:
  assumes "Drill_post_init center self = Inr self'"
  shows "\<exists>d vs ordered.
           depth self = Some d
         \<and> drill_targets center self = Inr vs
         \<and> order_loop None (map (\<lambda>v. (vec_x v, vec_y v)) vs) [] = Inr ordered
         \<and> map (\<lambda>c. (kind c, cmd_end c, cmd_feed c)) (commands self') =
             concat (map (\<lambda>pt.
               [(Rapid, AddressVector None None (Some (op_safe_height (job self))), None),
                (Rapid, AddressVector (Some (fst pt)) (Some (snd pt)) None, None),
                (Rapid, AddressVector None None (Some 0), None),
                (PlungeCut, AddressVector None None (Some (- \<bar>d\<bar>)), Some (feed (job self)))])
               ordered)
         \<and> length (commands self') = 4 * length ordered
         \<and> (\<exists>self''. Drill_post_init center (self\<lparr>depth := Some (- d)\<rparr>) = Inr self''
                \<and> commands self'' = commands self')"
proof -
  let ?pos0 = "case previous_pos self of None \<Rightarrow> AddressVector None None None | Some p \<Rightarrow> p"
  from Drill_post_init_Inr [OF assms] obtain d vs ordered new where
    d: "depth self = Some d" and vs: "drill_targets center self = Inr vs"
    and ord: "order_loop None (map (\<lambda>v. (vec_x v, vec_y v)) vs) [] = Inr ordered"
    and cut: "cut_loop (job self) (- \<bar>d\<bar>) ordered ?pos0 [] = (final_pos ?pos0 (concat new), new)"
    and self': "self' = self\<lparr>previous_pos := Some (final_pos ?pos0 (concat new)),
                           commands := concat new\<rparr>"
    by blast
  from cut_loop_result [of "job self" "- \<bar>d\<bar>" ordered ?pos0 "[]"] cut
  have proj: "map (map (\<lambda>c. (kind c, cmd_end c, cmd_feed c))) new
                = map (target_commands (job self) (- \<bar>d\<bar>)) ordered"
    by auto
  have cmds: "commands self' = concat new"
    using self' by simp
  have "map (\<lambda>c. (kind c, cmd_end c, cmd_feed c)) (concat new)
          = concat (map (map (\<lambda>c. (kind c, cmd_end c, cmd_feed c))) new)"
    by (simp add: map_concat)
  also have "\<dots> = concat (map (target_commands (job self) (- \<bar>d\<bar>)) ordered)"
    by (simp only: proj)
  finally have seq: "map (\<lambda>c. (kind c, cmd_end c, cmd_feed c)) (commands self') =
             concat (map (\<lambda>pt.
               [(Rapid, AddressVector None None (Some (op_safe_height (job self))), None),
                (Rapid, AddressVector (Some (fst pt)) (Some (snd pt)) None, None),
                (Rapid, AddressVector None None (Some 0), None),
                (PlungeCut, AddressVector None None (Some (- \<bar>d\<bar>)), Some (feed (job self)))])
               ordered)"
    unfolding cmds target_commands_def .
  have len: "length (commands self') = 4 * length ordered"
    unfolding cmds
    by (rule length_concat_four [OF proj]) (simp add: target_commands_def)
  have targets': "drill_targets center (self\<lparr>depth := Some (- d)\<rparr>) = Inr vs"
    using vs d by (auto simp: drill_targets_def split: option.splits sum.splits if_splits)
  have "Drill_post_init center (self\<lparr>depth := Some (- d)\<rparr>)
          = Inr (self\<lparr>depth := Some (- d), previous_pos := Some (final_pos ?pos0 (concat new)),
                      commands := concat new\<rparr>)"
    by (simp add: Drill_post_init_def Let_def targets' ord cut flatten_list_def)
  with cmds have neg: "\<exists>self''. Drill_post_init center (self\<lparr>depth := Some (- d)\<rparr>) = Inr self''
                \<and> commands self'' = commands self'"
    by simp
  from d vs ord seq len neg show ?thesis by blast
qed

theorem Drill_command_sequence_witness:
  "\<exists>self'. Drill_post_init (\<lambda>w::unit. Vector 0 0 0)
      \<lparr>job = \<lparr>feed = 100, op_safe_height = 10, toWorldCoords = (\<lambda>v. v)\<rparr>,
        o_arg = Some [VectorObj (Vector 1 2 0), VectorObj (Vector 5 2 0)], depth = Some 3,
        previous_pos = None, commands = []\<rparr> = Inr self'
     \<and> map (\<lambda>c. (kind c, cmd_end c, cmd_feed c)) (commands self') =
         [(Rapid, AddressVector None None (Some 10), None),
          (Rapid, AddressVector (Some 1) (Some 2) None, None),
          (Rapid, AddressVector None None (Some 0), None),
          (PlungeCut, AddressVector None None (Some (- 3)), Some 100),
          (Rapid, AddressVector None None (Some 10), None),
          (Rapid, AddressVector (Some 5) (Some 2) None, None),
          (Rapid, AddressVector None None (Some 0), None),
          (PlungeCut, AddressVector None None (Some (- 3)), Some 100)]
     \<and> length (commands self') = 8
     \<and> (\<exists>self''. Drill_post_init (\<lambda>w::unit. Vector 0 0 0)
          \<lparr>job = \<lparr>feed = 100, op_safe_height = 10, toWorldCoords = (\<lambda>v. v)\<rparr>,
            o_arg = Some [VectorObj (Vector 1 2 0), VectorObj (Vector 5 2 0)], depth = Some (- 3),
            previous_pos = None, commands = []\<rparr> = Inr self''
          \<and> commands self'' = commands self')"
proof -
  let ?S = "\<lparr>job = \<lparr>feed = 100, op_safe_height = 10, toWorldCoords = (\<lambda>v. v)\<rparr>,
        o_arg = Some [VectorObj (Vector 1 2 0), VectorObj (Vector 5 2 0)], depth = Some 3,
        previous_pos = None, commands = []\<rparr> :: unit Drill"
  from Drill_post_init_two_points [of None] obtain self' where
    run: "Drill_post_init (\<lambda>w::unit. Vector 0 0 0) ?S = Inr self'"
    by blast
  from Drill_command_sequence [OF run] obtain d vs ordered where
    d: "depth ?S = Some d"
    and vs: "drill_targets (\<lambda>w::unit. Vector 0 0 0) ?S = Inr vs"
    and ord: "order_loop None (map (\<lambda>v. (vec_x v, vec_y v)) vs) [] = Inr ordered"
    and seq: "map (\<lambda>c. (kind c, cmd_end c, cmd_feed c)) (commands self') =
             concat (map (\<lambda>pt.
               [(Rapid, AddressVector None None (Some (op_safe_height (job ?S))), None),
                (Rapid, AddressVector (Some (fst pt)) (Some (snd pt)) None, None),
                (Rapid, AddressVector None None (Some 0), None),
                (PlungeCut, AddressVector None None (Some (- \<bar>d\<bar>)), Some (feed (job ?S)))])
               ordered)"
    and len: "length (commands self') = 4 * length ordered"
    and neg: "\<exists>self''. Drill_post_init (\<lambda>w::unit. Vector 0 0 0) (?S\<lparr>depth := Some (- d)\<rparr>) = Inr self''
                \<and> commands self'' = commands self'"
    by blast
  from d have d3: "d = 3" by simp
  from vs have vs2: "vs = [Vector 1 2 0, Vector 5 2 0]" by (simp add: drill_targets_two_points)
  from ord have ord2: "ordered = [(1, 2), (5, 2)]" by (simp add: vs2 order_loop_two_points)
  from seq len neg run show ?thesis
    unfolding d3 ord2 by (intro exI [of _ self']) simp
qed

text \<open>
  Claim C10. After every successful construction the command list is not empty, its first
  command starts at the \<^verbatim>\<open>previous_pos\<close> given (the all-unspecified AddressVector when
  none was given), every later command starts where the command before it ends, and the
  \<^verbatim>\<open>previous_pos\<close> field is the end of the last command.
\<close>

theorem Drill_chain_threading:
  assumes "Drill_post_init center self = Inr self'"
  shows "commands self' \<noteq> []
       \<and> start (hd (commands self')) =
           (case previous_pos self of None \<Rightarrow> AddressVector None None None | Some p \<Rightarrow> p)
       \<and> (\<forall>i. Suc i < length (commands self') \<longrightarrow>
             start (commands self' ! Suc i) = cmd_end (commands self' ! i))
       \<and> previous_pos self' = Some (cmd_end (last (commands self')))"
proof -
  let ?pos0 = "case previous_pos self of None \<Rightarrow> AddressVector None None None | Some p \<Rightarrow> p"
  from Drill_post_init_Inr [OF assms] obtain d vs ordered new where
    vs: "drill_targets center self = Inr vs" and ne: "vs \<noteq> []"
    and len: "length ordered = length vs"
    and cut: "cut_loop (job self) (- \<bar>d\<bar>) ordered ?pos0 [] = (final_pos ?pos0 (concat new), new)"
    and self': "self' = self\<lparr>previous_pos := Some (final_pos ?pos0 (concat new)),
                           commands := concat new\<rparr>"
    by blast
  from ne len have one: "ordered \<noteq> []" by auto
  from cut_loop_result [of "job self" "- \<bar>d\<bar>" ordered ?pos0 "[]"] cut one
  have chain: "chained ?pos0 (concat new)"
    and first: "concat new \<noteq> []" "start (hd (concat new)) = ?pos0"
    by auto
  have cmds: "commands self' = concat new"
    and pos: "previous_pos self' = Some (final_pos ?pos0 (concat new))"
    using self' by simp_all
  have fin: "final_pos ?pos0 (concat new) = cmd_end (last (concat new))"
    by (simp only: final_pos_def first(1) if_False)
  have nth: "\<forall>i. Suc i < length (concat new) \<longrightarrow>
             start (concat new ! Suc i) = cmd_end (concat new ! i)"
    using chained_nth [OF chain] by blast
  show ?thesis
    unfolding cmds pos fin using first nth by blast
qed

theorem Drill_chain_threading_witness:
  "\<exists>self'. Drill_post_init (\<lambda>w::unit. Vector 0 0 0)
      \<lparr>job = \<lparr>feed = 100, op_safe_height = 10, toWorldCoords = (\<lambda>v. v)\<rparr>,
        o_arg = Some [VectorObj (Vector 1 2 0), VectorObj (Vector 5 2 0)], depth = Some 3,
        previous_pos = Some (AddressVector (Some 0) (Some 0) (Some 20)), commands = []\<rparr>
       = Inr self'
     \<and> commands self' \<noteq> []
     \<and> start (hd (commands self')) = AddressVector (Some 0) (Some 0) (Some 20)
     \<and> start (commands self' ! 1) = cmd_end (commands self' ! 0)
     \<and> start (commands self' ! 4) = cmd_end (commands self' ! 3)
     \<and> previous_pos self' = Some (cmd_end (last (commands self')))"
proof -
  let ?S = "\<lparr>job = \<lparr>feed = 100, op_safe_height = 10, toWorldCoords = (\<lambda>v. v)\<rparr>,
        o_arg = Some [VectorObj (Vector 1 2 0), VectorObj (Vector 5 2 0)], depth = Some 3,
        previous_pos = Some (AddressVector (Some 0) (Some 0) (Some 20)), commands = []\<rparr>
        :: unit Drill"
  have "\<exists>self'. Drill_post_init (\<lambda>w::unit. Vector 0 0 0) ?S = Inr self'
          \<and> length (commands self') = 8"
    unfolding Drill_post_init_two_points by simp
  then obtain self' where
    run: "Drill_post_init (\<lambda>w::unit. Vector 0 0 0) ?S = Inr self'"
    and len: "length (commands self') = 8"
    by blast
  from Drill_chain_threading [OF run] have
    ne: "commands self' \<noteq> []"
    and first: "start (hd (commands self')) = AddressVector (Some 0) (Some 0) (Some 20)"
    and chain: "\<forall>i. Suc i < length (commands self') \<longrightarrow>
             start (commands self' ! Suc i) = cmd_end (commands self' ! i)"
    and final: "previous_pos self' = Some (cmd_end (last (commands self')))"
    by simp_all
  from chain [rule_format, of 0] len
  have one: "start (commands self' ! 1) = cmd_end (commands self' ! 0)" by simp
  from chain [rule_format, of 3] len
  have four: "start (commands self' ! 4) = cmd_end (commands self' ! 3)" by simp
  from run ne first one four final show ?thesis by blast
qed

end
